theory Spec2Isabelle
  imports Complex_Main "HOL-Library.AList" "HOL-Library.Char_ord" "HOL-Library.List_Lexorder"
begin

section \<open>Python values, exceptions and the object store\<close>

text \<open>
  The model follows \<^verbatim>\<open>kinship/kinship.py\<close>. Every exception the source can raise is a
  value of \<open>error\<close>; a computation that may raise returns \<open>error + 'a\<close> with \<open>Inl\<close> for
  the exception. Exception messages are not modelled.

  Numbers (allele values, frequencies, the running product) are real numbers: Python's
  \<^verbatim>\<open>13\<close>, \<^verbatim>\<open>13.0\<close> and numpy's \<^verbatim>\<open>int64(13)\<close> are equal and hash alike, so they are
  one dictionary key, and arithmetic is exact (rounding of binary floating point is outside
  the model).
\<close>

datatype error = ValueError | TypeError | AttributeError | KeyError | IndexError | ZeroDivisionError

definition and_then :: "error + 'a \<Rightarrow> ('a \<Rightarrow> error + 'b) \<Rightarrow> error + 'b" where
  "and_then r f = (case r of Inl e \<Rightarrow> Inl e | Inr v \<Rightarrow> f v)"

type_synonym marker = string
type_synonym allele = real

text \<open>
  A raw profile is a Python \<^verbatim>\<open>dict\<close> from marker name to a sequence of alleles, kept as
  an association list in insertion order; a dict has each key once, which is
  \<open>distinct (map fst d)\<close>. Alleles are numbers; the letters of the sex marker
  (\<^verbatim>\<open>'AMEL': ['X', 'Y']\<close>) stand as numbers too, since the source reads only the length
  of that entry before it deletes it.
\<close>

type_synonym raw_profile = "(marker \<times> allele list) list"

text \<open>
  What a caller can pass as a profile: a \<^verbatim>\<open>dict\<close>; an object that offers \<^verbatim>\<open>keys()\<close> and
  \<^verbatim>\<open>items()\<close> but is no \<^verbatim>\<open>dict\<close> instance (a \<^verbatim>\<open>MappingProxyType\<close>, a \<^verbatim>\<open>UserDict\<close>);
  or an object with no \<^verbatim>\<open>keys\<close> attribute at all (a list, \<^verbatim>\<open>None\<close>, a number).
\<close>

datatype pyobj = Dict raw_profile | NonDictMapping raw_profile | NoKeys

text \<open>
  Arguments are passed by reference: a profile argument is the address of the caller's
  object in the store, and \<^verbatim>\<open>del data['AMEL']\<close> updates the store at that address.
\<close>

type_synonym addr = nat
type_synonym heap = "addr \<Rightarrow> pyobj"

text \<open>The population table: marker name to (allele value to frequency).\<close>

type_synonym population = "marker \<rightharpoonup> (real \<rightharpoonup> real)"

definition py_keys :: "pyobj \<Rightarrow> error + marker list" where
  "py_keys obj = (case obj of
      Dict d \<Rightarrow> Inr (map fst d)
    | NonDictMapping d \<Rightarrow> Inr (map fst d)
    | NoKeys \<Rightarrow> Inl AttributeError)"

definition py_items :: "pyobj \<Rightarrow> error + raw_profile" where
  "py_items obj = (case obj of
      Dict d \<Rightarrow> Inr d
    | NonDictMapping d \<Rightarrow> Inr d
    | NoKeys \<Rightarrow> Inl AttributeError)"

definition py_getitem :: "pyobj \<Rightarrow> marker \<Rightarrow> error + allele list" where
  "py_getitem obj k = (case obj of
      Dict d \<Rightarrow> (case map_of d k of None \<Rightarrow> Inl KeyError | Some v \<Rightarrow> Inr v)
    | NonDictMapping d \<Rightarrow> (case map_of d k of None \<Rightarrow> Inl KeyError | Some v \<Rightarrow> Inr v)
    | NoKeys \<Rightarrow> Inl TypeError)"

definition isinstance_dict :: "pyobj \<Rightarrow> bool" where
  "isinstance_dict obj = (case obj of Dict d \<Rightarrow> True | NonDictMapping d \<Rightarrow> False | NoKeys \<Rightarrow> False)"

definition lookup :: "('k \<rightharpoonup> 'v) \<Rightarrow> 'k \<Rightarrow> error + 'v" where
  "lookup m k = (case m k of None \<Rightarrow> Inl KeyError | Some v \<Rightarrow> Inr v)"

definition index :: "'a list \<Rightarrow> nat \<Rightarrow> error + 'a" where
  "index xs i = (if i < length xs then Inr (xs ! i) else Inl IndexError)"

definition py_div :: "real \<Rightarrow> real \<Rightarrow> error + real" where
  "py_div a b = (if b = 0 then Inl ZeroDivisionError else Inr (a / b))"

text \<open>Decimal rendering of a length, as an f-string prints it.\<close>

definition digit_char :: "nat \<Rightarrow> char" where
  "digit_char d = ''0123456789'' ! d"

fun str_nat :: "nat \<Rightarrow> string" where
  "str_nat n = (if n < 10 then [digit_char n] else str_nat (n div 10) @ [digit_char (n mod 10)])"

declare str_nat.simps [simp del]

section \<open>class Profile\<close>

text \<open>
  \<^verbatim>\<open>self.profile\<close> is the very object the caller passed (its address); \<^verbatim>\<open>self.markers\<close> is
  \<^verbatim>\<open>sorted(self.profile.keys())\<close>; \<^verbatim>\<open>self.alleles\<close> is a numpy array with one row
  \<^verbatim>\<open>tuple(self.profile[marker])\<close> per marker, here the list of rows. The array copies the
  values, the dictionary is not copied.

  \<^verbatim>\<open>np.array\<close> stores all rows of a profile in one dtype. The model keeps every value as it
  is, which is what numpy does when that dtype holds each value of the profile exactly:
  integers within int64, or integers of magnitude up to \<open>2^53\<close> beside floats. Larger
  integers beside floats (numpy rounds them to float64) and strings among the alleles (numpy
  turns every value of the profile into a string) are outside the model; the lemmas on
  constructed cases speak of profiles within it.
\<close>

record Profile =
  profile :: addr
  markers :: "marker list"
  alleles :: "allele list list"

definition parse_markers :: "pyobj \<Rightarrow> error + marker list" where
  "parse_markers obj = and_then (py_keys obj) (\<lambda>ks. Inr (sort ks))"

fun parse_alleles :: "pyobj \<Rightarrow> marker list \<Rightarrow> error + allele list list" where
  "parse_alleles obj [] = Inr []"
| "parse_alleles obj (m # ms) =
     and_then (py_getitem obj m) (\<lambda>v.
     and_then (parse_alleles obj ms) (\<lambda>vs. Inr (v # vs)))"

definition Profile_init :: "heap \<Rightarrow> addr \<Rightarrow> error + Profile" where
  "Profile_init h a =
     and_then (parse_markers (h a)) (\<lambda>ms.
     and_then (parse_alleles (h a) ms) (\<lambda>als.
       Inr \<lparr>profile = a, markers = ms, alleles = als\<rparr>))"

section \<open>class Duo: construction\<close>

record Duo =
  child :: Profile
  parent :: Profile
  markers :: "marker list"
  population :: population

text \<open>
  The first statement of \<^verbatim>\<open>__init__\<close>: compare the sorted key lists. Its handler catches
  \<^verbatim>\<open>ValueError\<close> only and raises \<^verbatim>\<open>ValueError\<close> again, so the \<^verbatim>\<open>AttributeError\<close> of an
  object without \<^verbatim>\<open>keys\<close> passes through it. \<^verbatim>\<open>parent.keys()\<close> is evaluated first.
\<close>

definition check_same_markers :: "pyobj \<Rightarrow> pyobj \<Rightarrow> error + unit" where
  "check_same_markers p c =
     (case and_then (py_keys p) (\<lambda>pk.
           and_then (py_keys c) (\<lambda>ck.
             if sort pk \<noteq> sort ck then Inl ValueError else Inr ())) of
        Inl ValueError \<Rightarrow> Inl ValueError
      | Inl e \<Rightarrow> Inl e
      | Inr u \<Rightarrow> Inr u)"

text \<open>The loop \<^verbatim>\<open>for k, v in data.items(): if len(v) != 2: raise ValueError\<close>.\<close>

fun check_items :: "raw_profile \<Rightarrow> error + unit" where
  "check_items [] = Inr ()"
| "check_items ((k, v) # kvs) = (if length v \<noteq> 2 then Inl ValueError else check_items kvs)"

text \<open>The body of the \<^verbatim>\<open>try\<close> in \<^verbatim>\<open>_load_profile\<close>.\<close>

definition validate :: "pyobj \<Rightarrow> error + unit" where
  "validate data =
     (if \<not> isinstance_dict data then Inl TypeError
      else and_then (py_items data) check_items)"

definition AMEL :: marker where
  "AMEL = ''AMEL''"

text \<open>
  \<^verbatim>\<open>_load_profile\<close>: the bare \<^verbatim>\<open>except\<close> turns whatever the validation raised into
  \<^verbatim>\<open>ValueError\<close>; then the key \<^verbatim>\<open>'AMEL'\<close> is deleted from the object itself, and the
  \<^verbatim>\<open>Profile\<close> is built from the same object. The store is returned with the result, also when
  an exception leaves the method.
\<close>

definition del_AMEL :: "heap \<Rightarrow> addr \<Rightarrow> heap" where
  "del_AMEL h a = (case h a of
      Dict d \<Rightarrow> (if AMEL \<in> set (map fst d) then h(a := Dict (AList.delete AMEL d)) else h)
    | NonDictMapping d \<Rightarrow> h
    | NoKeys \<Rightarrow> h)"

definition load_profile :: "heap \<Rightarrow> addr \<Rightarrow> heap \<times> (error + Profile)" where
  "load_profile h data =
     (case validate (h data) of
        Inl e \<Rightarrow> (h, Inl ValueError)
      | Inr u \<Rightarrow> (let h' = del_AMEL h data in (h', Profile_init h' data)))"

definition get_markers :: "Profile \<Rightarrow> Profile \<Rightarrow> error + marker list" where
  "get_markers p c =
     (if Profile.markers p \<noteq> Profile.markers c then Inl ValueError else Inr (Profile.markers p))"

text \<open>
  \<^verbatim>\<open>Duo.__init__(parent, child, population)\<close>: the child is loaded before the parent. The
  default of \<^verbatim>\<open>population\<close> (a file read when the class is defined) is not modelled: the
  table is an argument.
\<close>

definition Duo_init :: "heap \<Rightarrow> addr \<Rightarrow> addr \<Rightarrow> population \<Rightarrow> heap \<times> (error + Duo)" where
  "Duo_init h parent_arg child_arg pop =
     (case check_same_markers (h parent_arg) (h child_arg) of
        Inl e \<Rightarrow> (h, Inl e)
      | Inr u \<Rightarrow>
         (case load_profile h child_arg of
            (h1, Inl e) \<Rightarrow> (h1, Inl e)
          | (h1, Inr c) \<Rightarrow>
             (case load_profile h1 parent_arg of
                (h2, Inl e) \<Rightarrow> (h2, Inl e)
              | (h2, Inr p) \<Rightarrow>
                 (case get_markers p c of
                    Inl e \<Rightarrow> (h2, Inl e)
                  | Inr ms \<Rightarrow>
                     (h2, Inr \<lparr>child = c, parent = p, markers = ms, population = pop\<rparr>)))))"

section \<open>Duo.inconsistent\_markers\<close>

text \<open>
  The property returns the list of inconsistent markers, or the integer \<^verbatim>\<open>0\<close>.
  \<^verbatim>\<open>any(inconsistent_markers)\<close> is the truth of some element of the list, and a string is
  true when it is not empty.
\<close>

datatype markers_or_zero = MarkerList "marker list" | IntZero

definition truthy :: "markers_or_zero \<Rightarrow> bool" where
  "truthy v = (case v of MarkerList ms \<Rightarrow> ms \<noteq> [] | IntZero \<Rightarrow> False)"

definition py_len :: "markers_or_zero \<Rightarrow> error + nat" where
  "py_len v = (case v of MarkerList ms \<Rightarrow> Inr (length ms) | IntZero \<Rightarrow> Inl TypeError)"

definition py_any :: "marker list \<Rightarrow> bool" where
  "py_any ms = list_ex (\<lambda>m. m \<noteq> []) ms"

text \<open>\<^verbatim>\<open>_check = [allele for allele in c_alleles if allele not in p_alleles]\<close>\<close>

definition check :: "allele list \<Rightarrow> allele list \<Rightarrow> allele list" where
  "check p_alleles c_alleles = filter (\<lambda>allele. allele \<notin> set p_alleles) c_alleles"

fun inconsistent_loop ::
  "(marker \<times> allele list \<times> allele list) list \<Rightarrow> marker list \<Rightarrow> marker list" where
  "inconsistent_loop [] inconsistent = inconsistent"
| "inconsistent_loop ((marker, p_alleles, c_alleles) # rest) inconsistent =
     (if length (check p_alleles c_alleles) \<noteq> 1
      then inconsistent_loop rest (inconsistent @ [marker])
      else inconsistent_loop rest inconsistent)"

definition inconsistent_markers :: "Duo \<Rightarrow> markers_or_zero \<times> Duo" where
  "inconsistent_markers self =
     (let alleles' = zip (alleles (parent self)) (alleles (child self));
          inconsistent = inconsistent_loop (zip (Profile.markers (parent self)) alleles') []
      in (if py_any inconsistent then MarkerList inconsistent else IntZero, self))"

section \<open>Duo.paternity\_index\<close>

text \<open>
  \<^verbatim>\<open>np.unique\<close> gives the sorted distinct values of an array, \<^verbatim>\<open>np.intersect1d\<close> the
  sorted distinct values that occur in both arrays.
\<close>

definition np_unique :: "real list \<Rightarrow> real list" where
  "np_unique xs = sort (remdups xs)"

definition np_intersect1d :: "real list \<Rightarrow> real list \<Rightarrow> real list" where
  "np_intersect1d xs ys = filter (\<lambda>x. x \<in> set ys) (np_unique xs)"

definition is_heterozygous :: "allele list \<Rightarrow> bool" where
  "is_heterozygous als = (if length (np_unique als) = 2 then True else False)"

text \<open>
  The body of the loop is four \<^verbatim>\<open>if\<close> statements in sequence, each multiplying \<^verbatim>\<open>calc\<close>
  when its condition holds. \<open>pop\<close> is \<^verbatim>\<open>self.population[m]\<close>.
\<close>

definition het_het :: "(real \<rightharpoonup> real) \<Rightarrow> allele list \<Rightarrow> allele list \<Rightarrow> real \<Rightarrow> error + real" where
  "het_het pop p c calc =
     (if is_heterozygous p \<and> is_heterozygous c then
        (if length (np_intersect1d p c) = 2 then
           and_then (index p 0) (\<lambda>p0. and_then (lookup pop p0) (\<lambda>a.
           and_then (index p 1) (\<lambda>p1. and_then (lookup pop p1) (\<lambda>b.
           and_then (py_div (a + b) (4 * a * b)) (\<lambda>r. Inr (calc * r))))))
         else
           and_then (index (np_intersect1d p c) 0) (\<lambda>shared_allele.
           and_then (lookup pop shared_allele) (\<lambda>f.
           and_then (py_div 0.25 f) (\<lambda>r. Inr (calc * r)))))
      else Inr calc)"

definition het_hom :: "(real \<rightharpoonup> real) \<Rightarrow> allele list \<Rightarrow> allele list \<Rightarrow> real \<Rightarrow> error + real" where
  "het_hom pop p c calc =
     (if is_heterozygous p \<and> \<not> is_heterozygous c then
        and_then (index p 0) (\<lambda>p0. and_then (lookup pop p0) (\<lambda>f.
        and_then (py_div 0.5 f) (\<lambda>r. Inr (calc * r))))
      else Inr calc)"

definition hom_het :: "(real \<rightharpoonup> real) \<Rightarrow> allele list \<Rightarrow> allele list \<Rightarrow> real \<Rightarrow> error + real" where
  "hom_het pop p c calc =
     (if \<not> is_heterozygous p \<and> is_heterozygous c then
        and_then (index p 0) (\<lambda>p0. and_then (lookup pop p0) (\<lambda>f.
        and_then (py_div 0.5 f) (\<lambda>r. Inr (calc * r))))
      else Inr calc)"

text \<open>The last statement reads \<^verbatim>\<open>calc *= 1 / pop[pop[0]]\<close>: the key is \<^verbatim>\<open>pop[0]\<close>.\<close>

definition hom_hom :: "(real \<rightharpoonup> real) \<Rightarrow> allele list \<Rightarrow> allele list \<Rightarrow> real \<Rightarrow> error + real" where
  "hom_hom pop p c calc =
     (if \<not> is_heterozygous p \<and> \<not> is_heterozygous c then
        and_then (lookup pop 0) (\<lambda>k. and_then (lookup pop k) (\<lambda>f.
        and_then (py_div 1 f) (\<lambda>r. Inr (calc * r))))
      else Inr calc)"

definition marker_step :: "(real \<rightharpoonup> real) \<Rightarrow> allele list \<Rightarrow> allele list \<Rightarrow> real \<Rightarrow> error + real" where
  "marker_step pop p c calc =
     and_then (het_het pop p c calc) (\<lambda>calc1.
     and_then (het_hom pop p c calc1) (\<lambda>calc2.
     and_then (hom_het pop p c calc2) (\<lambda>calc3.
       hom_hom pop p c calc3)))"

fun index_loop ::
  "population \<Rightarrow> (marker \<times> allele list \<times> allele list) list \<Rightarrow> real \<Rightarrow> error + real" where
  "index_loop population' [] calc = Inr calc"
| "index_loop population' ((m, p, c) # rest) calc =
     and_then (lookup population' m) (\<lambda>pop.
     and_then (marker_step pop p c calc) (\<lambda>calc'. index_loop population' rest calc'))"

text \<open>
  The value of the property: the diagnostic string or the number. The source evaluates
  \<^verbatim>\<open>self.inconsistent_markers\<close> once for the test and once more for the length.
\<close>

datatype pyval = Str string | Num real

definition paternity_index :: "Duo \<Rightarrow> (error + pyval) \<times> Duo" where
  "paternity_index self =
     (case inconsistent_markers self of (inc, self1) \<Rightarrow>
        if truthy inc then
          (case inconsistent_markers self1 of (inc2, self2) \<Rightarrow>
             (and_then (py_len inc2) (\<lambda>n.
                Inr (Str (''There are '' @ str_nat n @ '' inconsistent markers.''))), self2))
        else
          (and_then (index_loop (population self1)
                       (zip (Duo.markers self1)
                            (zip (alleles (parent self1)) (alleles (child self1)))) 1)
                    (\<lambda>calc. Inr (Num calc)), self1))"

section \<open>The public interface on dictionary literals\<close>

text \<open>
  \<^verbatim>\<open>Duo(parent, child, population)\<close> on two fresh dictionaries, the parent's at address 0
  and the child's at address 1, and the two properties read from the constructed case.
\<close>

definition fresh_heap :: "raw_profile \<Rightarrow> raw_profile \<Rightarrow> heap" where
  "fresh_heap parent_dict child_dict = (\<lambda>a. NoKeys)(0 := Dict parent_dict, 1 := Dict child_dict)"

definition new_Duo :: "raw_profile \<Rightarrow> raw_profile \<Rightarrow> population \<Rightarrow> error + Duo" where
  "new_Duo parent_dict child_dict pop = snd (Duo_init (fresh_heap parent_dict child_dict) 0 1 pop)"

definition Duo_inconsistent_markers ::
  "raw_profile \<Rightarrow> raw_profile \<Rightarrow> population \<Rightarrow> error + markers_or_zero" where
  "Duo_inconsistent_markers parent_dict child_dict pop =
     and_then (new_Duo parent_dict child_dict pop) (\<lambda>duo. Inr (fst (inconsistent_markers duo)))"

definition Duo_paternity_index ::
  "raw_profile \<Rightarrow> raw_profile \<Rightarrow> population \<Rightarrow> error + pyval" where
  "Duo_paternity_index parent_dict child_dict pop =
     and_then (new_Duo parent_dict child_dict pop) (\<lambda>duo. fst (paternity_index duo))"

section \<open>Notions used in the statements\<close>

text \<open>
  The rows the loop of \<^verbatim>\<open>inconsistent_markers\<close> runs over, and the test it applies to a
  row: the marker is appended when \<^verbatim>\<open>len(_check) != 1\<close>.
\<close>

definition marker_rows :: "Duo \<Rightarrow> (marker \<times> allele list \<times> allele list) list" where
  "marker_rows self =
     zip (Profile.markers (parent self)) (zip (alleles (parent self)) (alleles (child self)))"

definition flagged :: "marker \<times> allele list \<times> allele list \<Rightarrow> bool" where
  "flagged row = (case row of (m, p, c) \<Rightarrow> length (check p c) \<noteq> 1)"

text \<open>
  A raw dictionary whose entries all have two alleles; the rows of a profile read off a
  dictionary for given markers (each marker is a key where this is used); the profile that
  \<^verbatim>\<open>_load_profile\<close> builds from a dictionary.
\<close>

definition two_alleles :: "raw_profile \<Rightarrow> bool" where
  "two_alleles d = list_all (\<lambda>kv. length (snd kv) = 2) d"

definition rows_of :: "raw_profile \<Rightarrow> marker list \<Rightarrow> allele list list" where
  "rows_of d ms = map (\<lambda>m. the (map_of d m)) ms"

definition loaded :: "addr \<Rightarrow> raw_profile \<Rightarrow> Profile" where
  "loaded a d = \<lparr>profile = a, markers = sort (map fst (AList.delete AMEL d)),
                 alleles = rows_of (AList.delete AMEL d) (sort (map fst (AList.delete AMEL d)))\<rparr>"

text \<open>
  In the words of the specification: the number of alleles of the child pair C that appear
  in the parent pair P under membership, and whether a marker is in the value that
  \<^verbatim>\<open>inconsistent_markers\<close> returns (the integer \<^verbatim>\<open>0\<close> holds no marker).
\<close>

definition shared_count :: "allele list \<Rightarrow> allele list \<Rightarrow> nat" where
  "shared_count P C = length (filter (\<lambda>a. a \<in> set P) C)"

definition reported :: "marker \<Rightarrow> markers_or_zero \<Rightarrow> bool" where
  "reported m r = (case r of MarkerList ms \<Rightarrow> m \<in> set ms | IntZero \<Rightarrow> False)"

section \<open>The two properties on the object store\<close>

text \<open>
  The definitions above compute the properties from the value of the case. To see what an
  evaluation does to the objects themselves, the same two methods are given once more on a
  store of objects: a list of objects, an address being a position in it, and a new object
  taking the next free position. The objects are the caller's raw profiles, the lists of
  marker names, the numpy arrays of alleles, the population table, the two \<^verbatim>\<open>Profile\<close>
  objects (their attributes \<^verbatim>\<open>profile\<close>, \<^verbatim>\<open>markers\<close>, \<^verbatim>\<open>alleles\<close> as addresses) and the
  \<^verbatim>\<open>Duo\<close> object (\<^verbatim>\<open>child\<close>, \<^verbatim>\<open>parent\<close>, \<^verbatim>\<open>markers\<close>, \<^verbatim>\<open>population\<close> as addresses).

  Every attribute read goes through the store. The list \<^verbatim>\<open>inconsistent_markers = []\<close> is a
  new object and \<^verbatim>\<open>inconsistent_markers.append(marker)\<close> replaces the object at its address.
  What the source creates and only reads (\<^verbatim>\<open>_check\<close>, the zip iterators, the results of
  \<^verbatim>\<open>np.unique\<close> and \<^verbatim>\<open>np.intersect1d\<close>, numbers, strings) is a value. The iterators of the
  source read the marker list and the arrays as the loop runs; here their contents are read
  when the iterators are made, in the order in which the source makes them. The two agree
  as long as the loop does not write to that list or those arrays, and the only object the
  loop writes to is the new list.

  The store is meant to hold objects of the classes that the constructor gives them. A read
  that finds an object of another class, or an address beyond the store, returns an error
  (\<^verbatim>\<open>AttributeError\<close> for an attribute, \<^verbatim>\<open>TypeError\<close> for an iteration, a subscript or a
  length), where Python may do otherwise (it iterates over the keys of a dictionary); the
  statements below are about stores that hold a case.
\<close>

datatype pyobject =
    Raw pyobj
  | ListObj "marker list"
  | ArrayObj "allele list list"
  | TableObj population
  | ProfileObj addr addr addr
  | DuoObj addr addr addr addr

type_synonym store = "pyobject list"

definition deref :: "store \<Rightarrow> addr \<Rightarrow> error + pyobject" where
  "deref s a = (if a < length s then Inr (s ! a) else Inl AttributeError)"

definition alloc :: "store \<Rightarrow> pyobject \<Rightarrow> addr \<times> store" where
  "alloc s v = (length s, s @ [v])"

definition self_child :: "store \<Rightarrow> addr \<Rightarrow> error + addr" where
  "self_child s self = and_then (deref s self)
     (\<lambda>v. case v of DuoObj c p m t \<Rightarrow> Inr c | _ \<Rightarrow> Inl AttributeError)"

definition self_parent :: "store \<Rightarrow> addr \<Rightarrow> error + addr" where
  "self_parent s self = and_then (deref s self)
     (\<lambda>v. case v of DuoObj c p m t \<Rightarrow> Inr p | _ \<Rightarrow> Inl AttributeError)"

definition self_markers :: "store \<Rightarrow> addr \<Rightarrow> error + addr" where
  "self_markers s self = and_then (deref s self)
     (\<lambda>v. case v of DuoObj c p m t \<Rightarrow> Inr m | ProfileObj r m al \<Rightarrow> Inr m
                   | _ \<Rightarrow> Inl AttributeError)"

definition self_population :: "store \<Rightarrow> addr \<Rightarrow> error + addr" where
  "self_population s self = and_then (deref s self)
     (\<lambda>v. case v of DuoObj c p m t \<Rightarrow> Inr t | _ \<Rightarrow> Inl AttributeError)"

definition self_alleles :: "store \<Rightarrow> addr \<Rightarrow> error + addr" where
  "self_alleles s self = and_then (deref s self)
     (\<lambda>v. case v of ProfileObj r m al \<Rightarrow> Inr al | _ \<Rightarrow> Inl AttributeError)"

definition list_items :: "store \<Rightarrow> addr \<Rightarrow> error + marker list" where
  "list_items s a = and_then (deref s a)
     (\<lambda>v. case v of ListObj ms \<Rightarrow> Inr ms | _ \<Rightarrow> Inl TypeError)"

definition array_rows :: "store \<Rightarrow> addr \<Rightarrow> error + allele list list" where
  "array_rows s a = and_then (deref s a)
     (\<lambda>v. case v of ArrayObj rows \<Rightarrow> Inr rows | _ \<Rightarrow> Inl TypeError)"

definition table_getitem :: "store \<Rightarrow> addr \<Rightarrow> marker \<Rightarrow> error + (real \<rightharpoonup> real)" where
  "table_getitem s a m = and_then (deref s a)
     (\<lambda>v. case v of TableObj tbl \<Rightarrow> lookup tbl m | _ \<Rightarrow> Inl TypeError)"

definition list_append :: "store \<Rightarrow> addr \<Rightarrow> marker \<Rightarrow> error + store" where
  "list_append s l m = and_then (deref s l)
     (\<lambda>v. case v of ListObj ms \<Rightarrow> Inr (s[l := ListObj (ms @ [m])])
                   | _ \<Rightarrow> Inl AttributeError)"

fun append_loop ::
  "store \<Rightarrow> addr \<Rightarrow> (marker \<times> allele list \<times> allele list) list \<Rightarrow> (error + unit) \<times> store" where
  "append_loop s l [] = (Inr (), s)"
| "append_loop s l ((marker, p_alleles, c_alleles) # rest) =
     (if length (check p_alleles c_alleles) \<noteq> 1
      then (case list_append s l marker of
              Inl e \<Rightarrow> (Inl e, s)
            | Inr s' \<Rightarrow> append_loop s' l rest)
      else append_loop s l rest)"

datatype list_or_zero = ListRef addr | Zero

definition inconsistent_refs ::
  "store \<Rightarrow> addr \<Rightarrow> error + (allele list list \<times> allele list list \<times> addr)" where
  "inconsistent_refs s self =
     and_then (self_parent s self) (\<lambda>p. and_then (self_alleles s p) (\<lambda>pa.
     and_then (self_child s self) (\<lambda>c. and_then (self_alleles s c) (\<lambda>ca.
     and_then (array_rows s pa) (\<lambda>p_rows.
     and_then (array_rows s ca) (\<lambda>c_rows.
     and_then (self_parent s self) (\<lambda>p'. and_then (self_markers s p') (\<lambda>markers'.
       Inr (p_rows, c_rows, markers')))))))))"

definition inconsistent_markers_st :: "store \<Rightarrow> addr \<Rightarrow> (error + list_or_zero) \<times> store" where
  "inconsistent_markers_st s self =
     (case inconsistent_refs s self of
        Inl e \<Rightarrow> (Inl e, s)
      | Inr (p_rows, c_rows, markers') \<Rightarrow>
         (case alloc s (ListObj []) of
            (l, s1) \<Rightarrow>
              (case list_items s1 markers' of
                 Inl e \<Rightarrow> (Inl e, s1)
               | Inr ms \<Rightarrow>
                  (case append_loop s1 l (zip ms (zip p_rows c_rows)) of
                     (Inl e, s2) \<Rightarrow> (Inl e, s2)
                   | (Inr u, s2) \<Rightarrow>
                      (case list_items s2 l of
                         Inl e \<Rightarrow> (Inl e, s2)
                       | Inr inc \<Rightarrow> (Inr (if py_any inc then ListRef l else Zero), s2))))))"

definition truthy_st :: "store \<Rightarrow> list_or_zero \<Rightarrow> error + bool" where
  "truthy_st s v = (case v of
      ListRef l \<Rightarrow> and_then (list_items s l) (\<lambda>ms. Inr (ms \<noteq> []))
    | Zero \<Rightarrow> Inr False)"

definition len_st :: "store \<Rightarrow> list_or_zero \<Rightarrow> error + nat" where
  "len_st s v = (case v of
      ListRef l \<Rightarrow> and_then (list_items s l) (\<lambda>ms. Inr (length ms))
    | Zero \<Rightarrow> Inl TypeError)"

definition index_rows ::
  "store \<Rightarrow> addr \<Rightarrow> error + (marker \<times> allele list \<times> allele list) list" where
  "index_rows s self =
     and_then (self_markers s self) (\<lambda>m.
     and_then (self_parent s self) (\<lambda>p. and_then (self_alleles s p) (\<lambda>pa.
     and_then (self_child s self) (\<lambda>c. and_then (self_alleles s c) (\<lambda>ca.
     and_then (list_items s m) (\<lambda>ms.
     and_then (array_rows s pa) (\<lambda>p_rows.
     and_then (array_rows s ca) (\<lambda>c_rows.
       Inr (zip ms (zip p_rows c_rows))))))))))"

fun index_loop_st ::
  "store \<Rightarrow> addr \<Rightarrow> (marker \<times> allele list \<times> allele list) list \<Rightarrow> real \<Rightarrow> error + real" where
  "index_loop_st s self [] calc = Inr calc"
| "index_loop_st s self ((m, p, c) # rest) calc =
     and_then (self_population s self) (\<lambda>t.
     and_then (table_getitem s t m) (\<lambda>pop.
     and_then (marker_step pop p c calc) (\<lambda>calc'. index_loop_st s self rest calc')))"

definition paternity_index_st :: "store \<Rightarrow> addr \<Rightarrow> (error + pyval) \<times> store" where
  "paternity_index_st s self =
     (case inconsistent_markers_st s self of
        (Inl e, s1) \<Rightarrow> (Inl e, s1)
      | (Inr inc, s1) \<Rightarrow>
         (case truthy_st s1 inc of
            Inl e \<Rightarrow> (Inl e, s1)
          | Inr True \<Rightarrow>
             (case inconsistent_markers_st s1 self of
                (Inl e, s2) \<Rightarrow> (Inl e, s2)
              | (Inr inc2, s2) \<Rightarrow>
                 (and_then (len_st s2 inc2) (\<lambda>n.
                    Inr (Str (''There are '' @ str_nat n @ '' inconsistent markers.''))), s2))
          | Inr False \<Rightarrow>
             (and_then (index_rows s1 self) (\<lambda>rows.
              and_then (index_loop_st s1 self rows 1) (\<lambda>calc. Inr (Num calc))), s1)))"

text \<open>
  The case that the objects at an address make up, when they are of the right classes: the
  value-level case of the earlier sections. The \<^verbatim>\<open>profile\<close> of a profile is the address of
  its raw object.
\<close>

definition profile_at :: "store \<Rightarrow> addr \<Rightarrow> Profile option" where
  "profile_at s a =
     (case deref s a of
        Inr (ProfileObj r m al) \<Rightarrow>
          (case deref s r of
             Inr (Raw obj) \<Rightarrow>
               (case deref s m of
                  Inr (ListObj ms) \<Rightarrow>
                    (case deref s al of
                       Inr (ArrayObj rows) \<Rightarrow> Some \<lparr>profile = r, markers = ms, alleles = rows\<rparr>
                     | _ \<Rightarrow> None)
                | _ \<Rightarrow> None)
           | _ \<Rightarrow> None)
      | _ \<Rightarrow> None)"

definition duo_at :: "store \<Rightarrow> addr \<Rightarrow> Duo option" where
  "duo_at s self =
     (case deref s self of
        Inr (DuoObj c p m t) \<Rightarrow>
          (case profile_at s c of
             Some cv \<Rightarrow>
               (case profile_at s p of
                  Some pv \<Rightarrow>
                    (case deref s m of
                       Inr (ListObj ms) \<Rightarrow>
                         (case deref s t of
                            Inr (TableObj pop) \<Rightarrow>
                              Some \<lparr>child = cv, parent = pv, markers = ms, population = pop\<rparr>
                          | _ \<Rightarrow> None)
                     | _ \<Rightarrow> None)
                | None \<Rightarrow> None)
           | None \<Rightarrow> None)
      | _ \<Rightarrow> None)"

text \<open>
  The objects of a case constructed from two dictionaries at the addresses 0 and 1, as
  \<^verbatim>\<open>new_Duo\<close> does: the raw objects, then what the constructor creates. \<^verbatim>\<open>self.markers\<close> is the
  very list of the parent's profile (\<^verbatim>\<open>_get_markers\<close> returns \<^verbatim>\<open>self.parent.markers\<close>), so
  the two attributes hold one address.
\<close>

definition objects_of :: "heap \<Rightarrow> Duo \<Rightarrow> store" where
  "objects_of h d =
     [Raw (h 0), Raw (h 1),
      ListObj (Profile.markers (parent d)), ArrayObj (alleles (parent d)),
      ListObj (Profile.markers (child d)), ArrayObj (alleles (child d)),
      TableObj (population d),
      ProfileObj 0 2 3, ProfileObj 1 4 5, DuoObj 8 7 2 6]"

section \<open>Evaluation on concrete cases\<close>

lemmas construct_defs =
  new_Duo_def fresh_heap_def Duo_init_def check_same_markers_def py_keys_def py_items_def
  py_getitem_def isinstance_dict_def and_then_def load_profile_def validate_def del_AMEL_def
  AMEL_def Profile_init_def parse_markers_def get_markers_def

lemmas property_defs =
  paternity_index_def inconsistent_markers_def py_any_def check_def truthy_def py_len_def
  lookup_def marker_step_def het_het_def het_hom_def hom_het_def hom_hom_def
  is_heterozygous_def np_unique_def np_intersect1d_def index_def py_div_def Let_def

lemmas interface_defs = Duo_paternity_index_def Duo_inconsistent_markers_def

lemma str_nat_one: "str_nat (Suc 0) = ''1''"
  by (simp add: str_nat.simps digit_char_def)

section \<open>The loop of inconsistent\_markers\<close>

lemma inconsistent_loop_filter:
  "inconsistent_loop rows acc = acc @ map fst (filter flagged rows)"
  by (induction rows arbitrary: acc) (auto simp: flagged_def)

lemma inconsistent_markers_eq:
  "inconsistent_markers self =
     (if py_any (map fst (filter flagged (marker_rows self)))
      then MarkerList (map fst (filter flagged (marker_rows self))) else IntZero, self)"
  by (simp add: inconsistent_markers_def inconsistent_loop_filter marker_rows_def Let_def)

lemma diagnostic_of_flagged_row:
  assumes "row \<in> set (marker_rows self)" and "flagged row" and "fst row \<noteq> []"
  shows "fst (paternity_index self) =
     Inr (Str (''There are '' @ str_nat (length (filter flagged (marker_rows self)))
               @ '' inconsistent markers.''))"
proof -
  let ?inc = "map fst (filter flagged (marker_rows self))"
  from assms have "fst row \<in> set ?inc" by auto
  with assms(3) have any: "py_any ?inc"
    unfolding py_any_def list_ex_iff by blast
  then have "?inc \<noteq> []" by (auto simp: py_any_def)
  with any show ?thesis
    by (simp add: paternity_index_def inconsistent_markers_eq truthy_def py_len_def and_then_def)
qed

section \<open>Construction and the caller's dictionaries\<close>

text \<open>
  What \<^verbatim>\<open>_load_profile\<close> does to the store when it is given a dictionary, and the value
  of \<^verbatim>\<open>Duo.__init__\<close> for two dictionaries: \<^verbatim>\<open>ValueError\<close> when the sorted key lists
  differ or an entry has not two alleles, the case otherwise. The key lists of two
  dictionaries sort alike exactly when their key sets are equal.
\<close>

lemma del_AMEL_Dict: "h a = Dict d \<Longrightarrow> del_AMEL h a = h(a := Dict (AList.delete AMEL d))"
proof -
  assume a: "h a = Dict d"
  have "AMEL \<notin> set (map fst d) \<Longrightarrow> AList.delete AMEL d = d" by simp
  with a show ?thesis by (auto simp: del_AMEL_def fun_eq_iff)
qed

lemma load_profile_Dict:
  assumes "load_profile h a = (h', Inr p)" and "h a = Dict d"
  shows "h' = h(a := Dict (AList.delete AMEL d)) \<and> profile p = a"
  using assms del_AMEL_Dict [of h a d]
  by (auto simp: load_profile_def Let_def Profile_init_def and_then_def split: sum.splits)

lemma check_items_two_alleles:
  "check_items d = (if two_alleles d then Inr () else Inl ValueError)"
  by (induction d rule: check_items.induct) (auto simp: two_alleles_def)

lemma parse_alleles_Dict:
  "set ms \<subseteq> fst ` set d \<Longrightarrow> parse_alleles (Dict d) ms = Inr (rows_of d ms)"
proof (induction ms)
  case Nil
  then show ?case by (simp add: rows_of_def)
next
  case (Cons m ms)
  then have "m \<in> fst ` set d" by simp
  then obtain v where "map_of d m = Some v"
    by (metis map_of_eq_None_iff not_Some_eq)
  with Cons show ?case
    by (simp add: rows_of_def py_getitem_def and_then_def)
qed

lemma load_profile_Dict_eq:
  assumes "h a = Dict d"
  shows "load_profile h a =
    (if two_alleles d then (h(a := Dict (AList.delete AMEL d)), Inr (loaded a d))
     else (h, Inl ValueError))"
proof (cases "two_alleles d")
  case False
  with assms show ?thesis
    by (simp add: load_profile_def validate_def isinstance_dict_def py_items_def and_then_def
        check_items_two_alleles)
next
  case True
  have "parse_alleles (Dict (AList.delete AMEL d)) (sort (map fst (AList.delete AMEL d)))
      = Inr (rows_of (AList.delete AMEL d) (sort (map fst (AList.delete AMEL d))))"
    by (rule parse_alleles_Dict) simp
  with True assms del_AMEL_Dict [of h a d] show ?thesis
    by (simp add: load_profile_def validate_def isinstance_dict_def py_items_def and_then_def
        check_items_two_alleles Let_def Profile_init_def parse_markers_def
        py_keys_def loaded_def)
qed

lemma two_alleles_delete: "two_alleles d \<Longrightarrow> two_alleles (AList.delete k d)"
  by (simp add: two_alleles_def AList.delete_eq list_all_iff)

lemma sort_keys_delete:
  fixes dp dc :: raw_profile
  assumes "sort (map fst dp) = sort (map fst dc)"
  shows "sort (map fst (AList.delete k dp)) = sort (map fst (AList.delete k dc))"
proof -
  have "sort (removeAll k xs) = removeAll k (sort xs)" for xs :: "marker list"
    by (simp add: removeAll_filter_not_eq filter_sort)
  with assms show ?thesis by (simp add: AList.delete_keys)
qed

lemma Duo_init_Dict_eq:
  assumes "h parent_arg = Dict dp" and "h child_arg = Dict dc"
  shows "Duo_init h parent_arg child_arg pop =
    (if sort (map fst dp) \<noteq> sort (map fst dc) then (h, Inl ValueError)
     else if \<not> two_alleles dc then (h, Inl ValueError)
     else if \<not> two_alleles dp then (h(child_arg := Dict (AList.delete AMEL dc)), Inl ValueError)
     else (h(child_arg := Dict (AList.delete AMEL dc), parent_arg := Dict (AList.delete AMEL dp)),
           Inr \<lparr>child = loaded child_arg dc, parent = loaded parent_arg dp,
                markers = sort (map fst (AList.delete AMEL dp)), population = pop\<rparr>))"
proof -
  let ?h1 = "h(child_arg := Dict (AList.delete AMEL dc))"
  have chk: "check_same_markers (h parent_arg) (h child_arg) =
      (if sort (map fst dp) \<noteq> sort (map fst dc) then Inl ValueError else Inr ())"
    by (simp add: check_same_markers_def py_keys_def and_then_def assms)
  note lc = load_profile_Dict_eq [of h child_arg dc, OF assms(2)]
  show ?thesis
  proof (cases "sort (map fst dp) = sort (map fst dc) \<and> two_alleles dc")
    case False
    then show ?thesis
      by (auto simp: Duo_init_def chk lc)
  next
    case good: True
    show ?thesis
    proof (cases "parent_arg = child_arg")
      case True
      with assms have eq: "dp = dc" by simp
      have h1: "?h1 child_arg = Dict (AList.delete AMEL dc)" by simp
      note lp = load_profile_Dict_eq [of ?h1 child_arg "AList.delete AMEL dc", OF h1]
      have chk': "check_same_markers (h child_arg) (h child_arg) = Inr ()"
        by (simp add: check_same_markers_def py_keys_def and_then_def assms)
      from good True eq show ?thesis
        by (simp add: Duo_init_def chk' lc lp two_alleles_delete AList.delete_idem
            get_markers_def loaded_def)
    next
      case False
      with assms have h1: "?h1 parent_arg = Dict dp" by simp
      note lp = load_profile_Dict_eq [of ?h1 parent_arg dp, OF h1]
      from good have mk: "sort (map fst (AList.delete AMEL dp)) = sort (map fst (AList.delete AMEL dc))"
        by (intro sort_keys_delete) simp
      from good False show ?thesis
        by (simp add: Duo_init_def chk lc lp get_markers_def loaded_def mk)
    qed
  qed
qed

lemma sort_keys_eq_iff:
  fixes dp dc :: raw_profile
  assumes "distinct (map fst dp)" and "distinct (map fst dc)"
  shows "sort (map fst dp) = sort (map fst dc) \<longleftrightarrow> fst ` set dp = fst ` set dc"
proof
  assume "sort (map fst dp) = sort (map fst dc)"
  then have "set (sort (map fst dp)) = set (sort (map fst dc))" by simp
  then show "fst ` set dp = fst ` set dc" by simp
next
  assume "fst ` set dp = fst ` set dc"
  then have "set (sort (map fst dp)) = set (sort (map fst dc))" by simp
  with assms show "sort (map fst dp) = sort (map fst dc)"
    by (intro sorted_distinct_set_unique) simp_all
qed

lemma Duo_init_Dict_ValueError_iff:
  assumes "h parent_arg = Dict dp" and "h child_arg = Dict dc"
  shows "snd (Duo_init h parent_arg child_arg pop) = Inl ValueError \<longleftrightarrow>
      sort (map fst dp) \<noteq> sort (map fst dc) \<or> \<not> two_alleles dp \<or> \<not> two_alleles dc"
    and "(\<exists>duo. snd (Duo_init h parent_arg child_arg pop) = Inr duo) \<longleftrightarrow>
      sort (map fst dp) = sort (map fst dc) \<and> two_alleles dp \<and> two_alleles dc"
  by (auto simp: Duo_init_Dict_eq [OF assms])

text \<open>
  The other arguments: an object without \<^verbatim>\<open>keys\<close> on either side gives
  \<^verbatim>\<open>AttributeError\<close>; a mapping that is no \<^verbatim>\<open>dict\<close> gives \<^verbatim>\<open>ValueError\<close>.
\<close>

lemma Duo_init_NoKeys:
  assumes "h parent_arg = NoKeys \<or> h child_arg = NoKeys"
  shows "Duo_init h parent_arg child_arg pop = (h, Inl AttributeError)"
  using assms
  by (auto simp: Duo_init_def check_same_markers_def py_keys_def and_then_def split: pyobj.splits)

lemma load_profile_not_dict:
  "\<not> isinstance_dict (h a) \<Longrightarrow> load_profile h a = (h, Inl ValueError)"
  by (simp add: load_profile_def validate_def)

lemma check_same_markers_cases:
  "p \<noteq> NoKeys \<Longrightarrow> c \<noteq> NoKeys \<Longrightarrow>
     check_same_markers p c = Inl ValueError \<or> check_same_markers p c = Inr ()"
  by (auto simp: check_same_markers_def py_keys_def and_then_def split: pyobj.splits)

lemma Duo_init_not_dict:
  assumes "h parent_arg \<noteq> NoKeys" and "h child_arg \<noteq> NoKeys"
    and "\<not> (isinstance_dict (h parent_arg) \<and> isinstance_dict (h child_arg))"
  shows "snd (Duo_init h parent_arg child_arg pop) = Inl ValueError"
proof (cases "check_same_markers (h parent_arg) (h child_arg)")
  case (Inl e)
  with check_same_markers_cases [OF assms(1,2)] show ?thesis
    by (auto simp: Duo_init_def)
next
  case (Inr u)
  show ?thesis
  proof (cases "isinstance_dict (h child_arg)")
    case False
    then show ?thesis
      by (simp add: Duo_init_def Inr load_profile_not_dict)
  next
    case True
    with assms(3) have np: "\<not> isinstance_dict (h parent_arg)" by simp
    from True obtain dc where dc: "h child_arg = Dict dc"
      by (auto simp: isinstance_dict_def split: pyobj.splits)
    let ?h1 = "h(child_arg := Dict (AList.delete AMEL dc))"
    from np True have "parent_arg \<noteq> child_arg" by auto
    with np have "\<not> isinstance_dict (?h1 parent_arg)" by simp
    then have "load_profile ?h1 parent_arg = (?h1, Inl ValueError)"
      by (rule load_profile_not_dict)
    then show ?thesis
      by (simp add: Duo_init_def Inr load_profile_Dict_eq [of h child_arg dc, OF dc])
  qed
qed

section \<open>The rows of a constructed case\<close>

text \<open>
  A constructed case has one row per key other than \<^verbatim>\<open>'AMEL'\<close>, holding that key's pair
  in the parent's and in the child's dictionary. A row is flagged exactly when the number of
  child alleles found in the parent's pair is not 1; a marker whose name is not empty is in
  the value of \<^verbatim>\<open>inconsistent_markers\<close> exactly when its row is flagged; a homozygous child
  pair is always flagged.
\<close>

lemma zip_rows:
  "zip ms (zip (map f ms) (map g ms)) = map (\<lambda>m. (m, f m, g m)) ms"
  by (induction ms) auto

lemma constructed_case:
  assumes "h parent_arg = Dict dp" and "h child_arg = Dict dc"
    and "Duo_init h parent_arg child_arg pop = (h', Inr duo)"
  shows "sort (map fst dp) = sort (map fst dc)" and "two_alleles dp" and "two_alleles dc"
    and "duo = \<lparr>child = loaded child_arg dc, parent = loaded parent_arg dp,
                markers = sort (map fst (AList.delete AMEL dp)), population = pop\<rparr>"
  using assms(3) unfolding Duo_init_Dict_eq [OF assms(1,2)]
  by (auto split: if_splits)

lemma constructed_rows:
  assumes "h parent_arg = Dict dp" and "h child_arg = Dict dc"
    and "Duo_init h parent_arg child_arg pop = (h', Inr duo)"
  shows "marker_rows duo =
     map (\<lambda>m. (m, the (map_of (AList.delete AMEL dp) m), the (map_of (AList.delete AMEL dc) m)))
         (sort (map fst (AList.delete AMEL dp)))"
proof -
  note c = constructed_case [OF assms]
  from c(1) have mk: "sort (map fst (AList.delete AMEL dc)) = sort (map fst (AList.delete AMEL dp))"
    by (intro sort_keys_delete) simp
  show ?thesis
    by (simp add: c(4) marker_rows_def loaded_def rows_of_def mk zip_rows)
qed

lemma map_of_two_alleles:
  "two_alleles d \<Longrightarrow> map_of d m = Some v \<Longrightarrow> length v = 2"
  using map_of_SomeD [of d m v] by (fastforce simp: two_alleles_def list_all_iff)

lemma key_has_value: "m \<in> fst ` set d \<Longrightarrow> \<exists>v. map_of d m = Some v"
  by (metis map_of_eq_None_iff not_Some_eq)

lemma constructed_row:
  assumes "h parent_arg = Dict dp" and "h child_arg = Dict dc"
    and "Duo_init h parent_arg child_arg pop = (h', Inr duo)"
    and "(m, P, C) \<in> set (marker_rows duo)"
  shows "m \<noteq> AMEL" and "map_of dp m = Some P" and "map_of dc m = Some C"
    and "length P = 2" and "length C = 2"
proof -
  note c = constructed_case [OF assms(1-3)]
  from c(1) have mk: "sort (map fst (AList.delete AMEL dc)) = sort (map fst (AList.delete AMEL dp))"
    by (intro sort_keys_delete) simp
  from assms(4) have m: "m \<in> fst ` set (AList.delete AMEL dp)"
    and P: "P = the (map_of (AList.delete AMEL dp) m)"
    and C: "C = the (map_of (AList.delete AMEL dc) m)"
    unfolding constructed_rows [OF assms(1-3)] by auto
  from m AList.delete_notin_dom [of AMEL dp] show ne: "m \<noteq> AMEL" by blast
  from mk have "set (sort (map fst (AList.delete AMEL dc))) = set (sort (map fst (AList.delete AMEL dp)))"
    by simp
  with m have mc: "m \<in> fst ` set (AList.delete AMEL dc)" by simp
  from key_has_value [OF m] P ne show p: "map_of dp m = Some P" by auto
  from key_has_value [OF mc] C ne show q: "map_of dc m = Some C" by auto
  from map_of_two_alleles [OF c(2) p] show "length P = 2" .
  from map_of_two_alleles [OF c(3) q] show "length C = 2" .
qed

lemma shared_key_has_row:
  assumes "h parent_arg = Dict dp" and "h child_arg = Dict dc"
    and "Duo_init h parent_arg child_arg pop = (h', Inr duo)"
    and "map_of dp m = Some P" and "map_of dc m = Some C" and "m \<noteq> AMEL"
  shows "(m, P, C) \<in> set (marker_rows duo)"
proof -
  from assms(4) have "m \<in> fst ` set dp" by (auto dest: map_of_SomeD intro: rev_image_eqI)
  with assms(6) have "m \<in> set (sort (map fst (AList.delete AMEL dp)))"
    by (simp add: AList.delete_keys)
  with assms(4-6) show ?thesis
    unfolding constructed_rows [OF assms(1-3)] by (auto simp: image_iff)
qed

lemma flagged_shared_count:
  "length C = 2 \<Longrightarrow> flagged (m, P, C) \<longleftrightarrow> shared_count P C \<noteq> 1"
proof -
  assume l: "length C = 2"
  have "length (filter (\<lambda>a. a \<in> set P) C) + length (filter (\<lambda>a. a \<notin> set P) C) = length C"
    by (rule sum_length_filter_compl)
  with l show ?thesis by (auto simp: flagged_def check_def shared_count_def)
qed

lemma flagged_names:
  assumes "rows = map (\<lambda>m. (m, f m, g m)) ms" and "(m, P, C) \<in> set rows"
  shows "m \<in> set (map fst (filter flagged rows)) \<longleftrightarrow> flagged (m, P, C)"
  using assms by (auto simp: image_iff)

lemma reported_iff_shared_count:
  assumes "h parent_arg = Dict dp" and "h child_arg = Dict dc"
    and "Duo_init h parent_arg child_arg pop = (h', Inr duo)"
    and "(m, P, C) \<in> set (marker_rows duo)"
  shows "reported m (fst (inconsistent_markers duo)) \<Longrightarrow> shared_count P C \<noteq> 1"
    and "m \<noteq> [] \<Longrightarrow> shared_count P C \<noteq> 1 \<Longrightarrow> reported m (fst (inconsistent_markers duo))"
proof -
  let ?inc = "map fst (filter flagged (marker_rows duo))"
  have fl: "m \<in> set ?inc \<longleftrightarrow> shared_count P C \<noteq> 1"
    using flagged_names [OF constructed_rows [OF assms(1-3)] assms(4)]
      flagged_shared_count [OF constructed_row(5) [OF assms]] by simp
  show "reported m (fst (inconsistent_markers duo)) \<Longrightarrow> shared_count P C \<noteq> 1"
    using fl by (auto simp: inconsistent_markers_eq reported_def split: if_splits)
  show "m \<noteq> [] \<Longrightarrow> shared_count P C \<noteq> 1 \<Longrightarrow> reported m (fst (inconsistent_markers duo))"
  proof -
    assume "m \<noteq> []" and "shared_count P C \<noteq> 1"
    with fl have "m \<in> set ?inc" by simp
    with \<open>m \<noteq> []\<close> have "py_any ?inc" unfolding py_any_def list_ex_iff by blast
    with \<open>m \<in> set ?inc\<close> show ?thesis
      by (simp add: inconsistent_markers_eq reported_def)
  qed
qed

lemma homozygous_pair: "length C = 2 \<Longrightarrow> \<not> is_heterozygous C \<longleftrightarrow> C ! 0 = C ! 1"
proof -
  assume "length C = 2"
  then obtain a b where C: "C = [a, b]"
    by (metis (no_types, opaque_lifting) One_nat_def Suc_1 length_0_conv length_Suc_conv)
  show ?thesis by (simp add: C is_heterozygous_def np_unique_def)
qed

lemma homozygous_child_flagged:
  assumes "length C = 2" and "\<not> is_heterozygous C"
  shows "flagged (m, P, C)"
proof -
  from assms(1) obtain a b where C: "C = [a, b]"
    by (metis (no_types, opaque_lifting) One_nat_def Suc_1 length_0_conv length_Suc_conv)
  with assms(2) have "a = b" by (simp add: is_heterozygous_def np_unique_def split: if_splits)
  with C show ?thesis by (simp add: flagged_def check_def)
qed

lemma homozygous_child_diagnostic:
  assumes "h parent_arg = Dict dp" and "h child_arg = Dict dc"
    and "Duo_init h parent_arg child_arg pop = (h', Inr duo)"
    and "(m, P, C) \<in> set (marker_rows duo)" and "\<not> is_heterozygous C" and "m \<noteq> []"
  shows "\<exists>n. fst (paternity_index duo) = Inr (Str (''There are '' @ str_nat n @ '' inconsistent markers.''))"
proof -
  from homozygous_child_flagged [OF constructed_row(5) [OF assms(1-4)] assms(5)]
  have "flagged (m, P, C)" .
  from diagnostic_of_flagged_row [OF assms(4) this] assms(6) show ?thesis by auto
qed

section \<open>The object store: what an evaluation writes\<close>

text \<open>
  The loop appends to the list at the address it is given, whichever list that is (lemma
  \<open>append_loop_eq\<close>: a loop given the address of the case's own marker list would change
  that list). \<^verbatim>\<open>inconsistent_markers\<close> gives it the address of the new list, so the store
  after the call is the store before it with one more object, the list of flagged markers. \<^verbatim>\<open>paternity_index\<close> calls it once or twice and writes nothing itself. Objects
  added to a store do not change the case that an address holds, and on a store that holds
  a case the store-level property returns what the value-level property returns for it.
\<close>

lemma deref_Inr: "deref s a = Inr v \<longleftrightarrow> a < length s \<and> s ! a = v"
  by (simp add: deref_def)

lemma deref_append: "a < length s \<Longrightarrow> deref (s @ g) a = deref s a"
  by (simp add: deref_def nth_append)

lemma deref_fresh: "deref (s @ [v]) (length s) = Inr v"
  by (simp add: deref_def)

lemma append_loop_eq:
  "l < length s \<Longrightarrow> s ! l = ListObj acc \<Longrightarrow>
     append_loop s l rows = (Inr (), s[l := ListObj (inconsistent_loop rows acc)])"
proof (induction rows arbitrary: s acc)
  case Nil
  then have "s[l := ListObj acc] = s" by (metis list_update_id)
  then show ?case by simp
next
  case (Cons row rows)
  obtain m p c where row: "row = (m, p, c)" by (cases row)
  show ?case
  proof (cases "length (check p c) \<noteq> 1")
    case False
    with Cons row show ?thesis by simp
  next
    case True
    let ?s' = "s[l := ListObj (acc @ [m])]"
    from Cons.prems have la: "list_append s l m = Inr ?s'"
      by (simp add: list_append_def deref_def and_then_def)
    from Cons.prems have "l < length ?s'" and "?s' ! l = ListObj (acc @ [m])" by simp_all
    from Cons.IH [OF this] True la row show ?thesis by simp
  qed
qed

lemma inconsistent_markers_st_eq:
  "inconsistent_markers_st s self =
     (case inconsistent_refs s self of
        Inl e \<Rightarrow> (Inl e, s)
      | Inr (p_rows, c_rows, markers') \<Rightarrow>
          (case list_items (s @ [ListObj []]) markers' of
             Inl e \<Rightarrow> (Inl e, s @ [ListObj []])
           | Inr ms \<Rightarrow>
               (Inr (if py_any (inconsistent_loop (zip ms (zip p_rows c_rows)) [])
                     then ListRef (length s) else Zero),
                s @ [ListObj (inconsistent_loop (zip ms (zip p_rows c_rows)) [])])))"
proof (cases "inconsistent_refs s self")
  case (Inl e)
  then show ?thesis by (simp add: inconsistent_markers_st_def)
next
  case (Inr refs)
  obtain p_rows c_rows markers' where refs: "refs = (p_rows, c_rows, markers')"
    by (cases refs)
  let ?s1 = "s @ [ListObj []]"
  show ?thesis
  proof (cases "list_items ?s1 markers'")
    case (Inl e)
    then show ?thesis by (simp add: inconsistent_markers_st_def Inr refs alloc_def)
  next
    case ms: (Inr ms)
    let ?rows = "zip ms (zip p_rows c_rows)"
    have "append_loop ?s1 (length s) ?rows
        = (Inr (), ?s1[length s := ListObj (inconsistent_loop ?rows [])])"
      by (rule append_loop_eq) simp_all
    then have loop: "append_loop ?s1 (length s) ?rows
        = (Inr (), s @ [ListObj (inconsistent_loop ?rows [])])"
      by simp
    have "list_items (s @ [ListObj (inconsistent_loop ?rows [])]) (length s)
        = Inr (inconsistent_loop ?rows [])"
      by (simp add: list_items_def deref_fresh and_then_def)
    then show ?thesis
      by (simp add: inconsistent_markers_st_def Inr refs alloc_def ms loop)
  qed
qed

lemma inconsistent_markers_st_frame:
  "take (length s) (snd (inconsistent_markers_st s self)) = s
   \<and> length s \<le> length (snd (inconsistent_markers_st s self))"
  by (simp add: inconsistent_markers_st_eq split: sum.splits prod.splits)

lemma paternity_index_st_frame:
  "take (length s) (snd (paternity_index_st s self)) = s"
proof -
  obtain r1 s1 where c1: "inconsistent_markers_st s self = (r1, s1)"
    by (cases "inconsistent_markers_st s self")
  obtain r2 s2 where c2: "inconsistent_markers_st s1 self = (r2, s2)"
    by (cases "inconsistent_markers_st s1 self")
  from inconsistent_markers_st_frame [of s self] c1
  have f1: "take (length s) s1 = s" and l1: "length s \<le> length s1" by simp_all
  from inconsistent_markers_st_frame [of s1 self] c2
  have f2: "take (length s1) s2 = s1" by simp
  have "take (length s) s2 = take (length s) (take (length s1) s2)"
    using l1 by (simp add: min_absorb1)
  with f1 f2 have f12: "take (length s) s2 = s" by simp
  show ?thesis
    using f1 f12
    by (simp add: paternity_index_st_def c1 c2 split: sum.splits bool.splits)
qed

lemma profile_atD:
  assumes "profile_at s a = Some p"
  shows "\<exists>m al obj. deref s a = Inr (ProfileObj (profile p) m al)
      \<and> deref s (profile p) = Inr (Raw obj)
      \<and> deref s m = Inr (ListObj (Profile.markers p))
      \<and> deref s al = Inr (ArrayObj (alleles p))"
  using assms
  by (auto simp: profile_at_def split: sum.splits pyobject.splits)

lemma duo_atD:
  assumes "duo_at s self = Some d"
  shows "\<exists>c p m t. deref s self = Inr (DuoObj c p m t)
      \<and> profile_at s c = Some (child d) \<and> profile_at s p = Some (parent d)
      \<and> deref s m = Inr (ListObj (Duo.markers d))
      \<and> deref s t = Inr (TableObj (population d))"
  using assms
  by (auto simp: duo_at_def split: sum.splits pyobject.splits option.splits)

lemma deref_append_Inr: "deref s a = Inr v \<Longrightarrow> deref (s @ g) a = Inr v"
  by (simp add: deref_def nth_append split: if_splits)

lemma profile_at_append:
  assumes "profile_at s a = Some p"
  shows "profile_at (s @ g) a = Some p"
proof -
  from profile_atD [OF assms] obtain m al obj where
    "deref s a = Inr (ProfileObj (profile p) m al)" "deref s (profile p) = Inr (Raw obj)"
    "deref s m = Inr (ListObj (Profile.markers p))" "deref s al = Inr (ArrayObj (alleles p))"
    by blast
  then have "deref (s @ g) a = Inr (ProfileObj (profile p) m al)"
    "deref (s @ g) (profile p) = Inr (Raw obj)"
    "deref (s @ g) m = Inr (ListObj (Profile.markers p))"
    "deref (s @ g) al = Inr (ArrayObj (alleles p))"
    by (simp_all add: deref_append_Inr)
  then show ?thesis by (simp add: profile_at_def)
qed

lemma duo_at_append:
  assumes "duo_at s self = Some d"
  shows "duo_at (s @ g) self = Some d"
proof -
  from duo_atD [OF assms] obtain c p m t where
    f: "deref s self = Inr (DuoObj c p m t)"
      "deref s m = Inr (ListObj (Duo.markers d))"
      "deref s t = Inr (TableObj (population d))" and
    c: "profile_at s c = Some (child d)" and p: "profile_at s p = Some (parent d)"
    by blast
  from f have "deref (s @ g) self = Inr (DuoObj c p m t)"
    "deref (s @ g) m = Inr (ListObj (Duo.markers d))"
    "deref (s @ g) t = Inr (TableObj (population d))"
    by (simp_all add: deref_append_Inr)
  with profile_at_append [OF c] profile_at_append [OF p] show ?thesis
    by (simp add: duo_at_def)
qed

lemma duo_at_rows:
  assumes "duo_at s self = Some d"
  shows "\<exists>markers'. inconsistent_refs s self = Inr (alleles (parent d), alleles (child d), markers')
          \<and> deref s markers' = Inr (ListObj (Profile.markers (parent d)))"
    and "index_rows s self
       = Inr (zip (Duo.markers d) (zip (alleles (parent d)) (alleles (child d))))"
    and "\<exists>t. self_population s self = Inr t \<and> deref s t = Inr (TableObj (population d))"
proof -
  from duo_atD [OF assms] obtain c p m t where
    self: "deref s self = Inr (DuoObj c p m t)" and
    c: "profile_at s c = Some (child d)" and p: "profile_at s p = Some (parent d)" and
    m: "deref s m = Inr (ListObj (Duo.markers d))" and
    t: "deref s t = Inr (TableObj (population d))"
    by blast
  from profile_atD [OF p] obtain pm pa where
    pobj: "deref s p = Inr (ProfileObj (profile (parent d)) pm pa)" and
    pml: "deref s pm = Inr (ListObj (Profile.markers (parent d)))" and
    pal: "deref s pa = Inr (ArrayObj (alleles (parent d)))"
    by blast
  from profile_atD [OF c] obtain cm ca where
    cobj: "deref s c = Inr (ProfileObj (profile (child d)) cm ca)" and
    cal: "deref s ca = Inr (ArrayObj (alleles (child d)))"
    by blast
  have sp: "self_parent s self = Inr p" and sc: "self_child s self = Inr c"
    and sm: "self_markers s self = Inr m" and st: "self_population s self = Inr t"
    by (simp_all add: self_parent_def self_child_def self_markers_def self_population_def
        and_then_def self)
  have lm: "list_items s m = Inr (Duo.markers d)"
    by (simp add: list_items_def and_then_def m)
  have pmr: "self_markers s p = Inr pm" and par: "self_alleles s p = Inr pa"
    and car: "self_alleles s c = Inr ca"
    by (simp_all add: self_markers_def self_alleles_def and_then_def pobj cobj)
  have pmi: "list_items s pm = Inr (Profile.markers (parent d))"
    and pai: "array_rows s pa = Inr (alleles (parent d))"
    and cai: "array_rows s ca = Inr (alleles (child d))"
    by (simp_all add: list_items_def array_rows_def and_then_def pml pal cal)
  have "inconsistent_refs s self = Inr (alleles (parent d), alleles (child d), pm)"
    by (simp add: inconsistent_refs_def sp sc pmr par car pai cai and_then_def)
  with pml show "\<exists>markers'. inconsistent_refs s self
          = Inr (alleles (parent d), alleles (child d), markers')
          \<and> deref s markers' = Inr (ListObj (Profile.markers (parent d)))"
    by blast
  show "index_rows s self
       = Inr (zip (Duo.markers d) (zip (alleles (parent d)) (alleles (child d))))"
    by (simp add: index_rows_def sp sc sm lm par car pai cai and_then_def)
  from st t show "\<exists>t. self_population s self = Inr t \<and> deref s t = Inr (TableObj (population d))"
    by blast
qed

lemma index_loop_st_eq:
  assumes "self_population s self = Inr t" and "deref s t = Inr (TableObj tbl)"
  shows "index_loop_st s self rows calc = index_loop tbl rows calc"
proof (induction rows arbitrary: calc)
  case Nil
  show ?case by simp
next
  case (Cons row rows)
  obtain m p c where row: "row = (m, p, c)" by (cases row)
  have g: "table_getitem s t m = lookup tbl m"
    by (simp add: table_getitem_def and_then_def assms(2))
  show ?case
    by (simp add: row assms(1) g Cons.IH and_then_def split: sum.splits)
qed

lemma inconsistent_markers_st_case:
  assumes "duo_at s self = Some d"
  shows "inconsistent_markers_st s self =
     (Inr (if py_any (map fst (filter flagged (marker_rows d))) then ListRef (length s) else Zero),
      s @ [ListObj (map fst (filter flagged (marker_rows d)))])"
proof -
  from duo_at_rows(1) [OF assms] obtain markers' where
    refs: "inconsistent_refs s self = Inr (alleles (parent d), alleles (child d), markers')" and
    m: "deref s markers' = Inr (ListObj (Profile.markers (parent d)))"
    by blast
  from m have "list_items (s @ [ListObj []]) markers' = Inr (Profile.markers (parent d))"
    by (simp add: list_items_def and_then_def deref_append_Inr)
  then show ?thesis
    by (simp add: inconsistent_markers_st_eq refs inconsistent_loop_filter marker_rows_def)
qed

lemma paternity_index_st_refines:
  assumes "duo_at s self = Some d"
  shows "fst (paternity_index_st s self) = fst (paternity_index d)"
proof -
  let ?inc = "map fst (filter flagged (marker_rows d))"
  let ?s1 = "s @ [ListObj ?inc]"
  let ?s2 = "?s1 @ [ListObj ?inc]"
  have d1: "duo_at ?s1 self = Some d" by (rule duo_at_append [OF assms])
  note c1 = inconsistent_markers_st_case [OF assms]
  note c2 = inconsistent_markers_st_case [OF d1]
  have pure: "fst (paternity_index d) =
      (if py_any ?inc
       then Inr (Str (''There are '' @ str_nat (length ?inc) @ '' inconsistent markers.''))
       else and_then (index_loop (population d)
              (zip (Duo.markers d) (zip (alleles (parent d)) (alleles (child d)))) 1)
              (\<lambda>calc. Inr (Num calc)))"
    by (auto simp: paternity_index_def inconsistent_markers_eq truthy_def py_len_def
        and_then_def py_any_def)
  show ?thesis
  proof (cases "py_any ?inc")
    case True
    then have ne: "?inc \<noteq> []" by (auto simp: py_any_def)
    have "list_items ?s1 (length s) = Inr ?inc"
      by (simp add: list_items_def and_then_def deref_fresh)
    with ne have t: "truthy_st ?s1 (ListRef (length s)) = Inr True"
      by (simp add: truthy_st_def and_then_def)
    have "list_items ?s2 (length ?s1) = Inr ?inc"
      by (simp only: list_items_def deref_fresh) (simp add: and_then_def)
    then have l: "len_st ?s2 (ListRef (length ?s1)) = Inr (length ?inc)"
      by (simp only: len_st_def list_or_zero.case) (simp add: and_then_def)
    have "paternity_index_st s self =
        (Inr (Str (''There are '' @ str_nat (length ?inc) @ '' inconsistent markers.'')), ?s2)"
      unfolding paternity_index_st_def c1 using True
      by (simp only: if_True prod.case sum.case t bool.case c2 l and_then_def)
    with True show ?thesis by (simp add: pure)
  next
    case False
    from duo_at_rows(3) [OF d1] obtain t where
      t: "self_population ?s1 self = Inr t" "deref ?s1 t = Inr (TableObj (population d))"
      by blast
    have "paternity_index_st s self =
        (and_then (index_loop (population d)
              (zip (Duo.markers d) (zip (alleles (parent d)) (alleles (child d)))) 1)
              (\<lambda>calc. Inr (Num calc)), ?s1)"
      unfolding paternity_index_st_def c1 using False
      by (simp add: truthy_st_def duo_at_rows(2) [OF d1] index_loop_st_eq [OF t] and_then_def)
    with False show ?thesis by (simp add: pure)
  qed
qed

lemma paternity_index_st_store:
  "\<exists>g. snd (paternity_index_st s self) = s @ g"
proof -
  have "take (length s) (snd (paternity_index_st s self)) = s"
    by (rule paternity_index_st_frame)
  then show ?thesis by (metis append_take_drop_id)
qed

lemma constructed_case_in_store:
  assumes "Duo_init (fresh_heap parent_dict child_dict) 0 1 pop = (h', Inr d)"
  shows "duo_at (objects_of h' d) 9 = Some d"
proof -
  have p: "fresh_heap parent_dict child_dict 0 = Dict parent_dict"
    and c: "fresh_heap parent_dict child_dict 1 = Dict child_dict"
    by (simp_all add: fresh_heap_def)
  from constructed_case(4) [OF p c assms]
  have d: "d = \<lparr>child = loaded 1 child_dict, parent = loaded 0 parent_dict,
                markers = sort (map fst (AList.delete AMEL parent_dict)), population = pop\<rparr>" .
  have "profile (parent d) = 0" and "profile (child d) = 1"
    and "Duo.markers d = Profile.markers (parent d)"
    by (simp_all add: d loaded_def)
  then show ?thesis
    by (simp add: duo_at_def profile_at_def objects_of_def deref_def)
qed

section \<open>The claims\<close>

text \<open>
  Claim C1. The claim: for parent \<^verbatim>\<open>{CSF1PO: [13,14]}\<close>, child \<^verbatim>\<open>{CSF1PO: [13,14]}\<close> and
  frequencies 0.2 and 0.3 the property \<^verbatim>\<open>paternity_index\<close> returns the ratio
  \<open>(0.2 + 0.3) / (4 * 0.2 * 0.3)\<close>. The code does not: no allele of the child is missing from
  the parent, so \<^verbatim>\<open>len(_check)\<close> is 0, the marker is listed as inconsistent and the property
  returns the diagnostic string. The branch of \<^verbatim>\<open>paternity_index\<close> for two shared alleles and
  the docstring of \<^verbatim>\<open>inconsistent_markers\<close> ("at least one allele") say what the claim says.
\<close>

theorem shared_both_alleles_reported_inconsistent:
  "Duo_inconsistent_markers [(''CSF1PO'', [13, 14])] [(''CSF1PO'', [13, 14])]
      [''CSF1PO'' \<mapsto> [13 \<mapsto> 0.2, 14 \<mapsto> 0.3]] = Inr (MarkerList [''CSF1PO''])
   \<and> Duo_paternity_index [(''CSF1PO'', [13, 14])] [(''CSF1PO'', [13, 14])]
      [''CSF1PO'' \<mapsto> [13 \<mapsto> 0.2, 14 \<mapsto> 0.3]] = Inr (Str ''There are 1 inconsistent markers.'')"
  by (simp add: interface_defs construct_defs property_defs str_nat_one)

text \<open>
  Claim C2. The claim: for parent \<^verbatim>\<open>{CSF1PO: [13,14]}\<close>, child \<^verbatim>\<open>{CSF1PO: [13,15]}\<close> the marker
  is inconsistent and \<^verbatim>\<open>paternity_index\<close> reports one inconsistent marker. On the code the
  child has exactly one allele (15) that the parent lacks, so the marker is consistent:
  \<^verbatim>\<open>inconsistent_markers\<close> is \<^verbatim>\<open>0\<close> and the result is not the diagnostic.
\<close>

theorem csf1po_13_15_not_diagnostic:
  "Duo_inconsistent_markers [(''CSF1PO'', [13, 14])] [(''CSF1PO'', [13, 15])]
      [''CSF1PO'' \<mapsto> [13 \<mapsto> 0.2, 14 \<mapsto> 0.3, 15 \<mapsto> 0.1]] = Inr IntZero
   \<and> Duo_paternity_index [(''CSF1PO'', [13, 14])] [(''CSF1PO'', [13, 15])]
      [''CSF1PO'' \<mapsto> [13 \<mapsto> 0.2, 14 \<mapsto> 0.3, 15 \<mapsto> 0.1]]
      \<noteq> Inr (Str ''There are 1 inconsistent markers.'')"
  by (simp add: interface_defs construct_defs property_defs)

text \<open>
  Claim C2 as amended: for that case the marker is consistent (the child shares exactly one
  allele, 13, with the parent) and \<^verbatim>\<open>paternity_index\<close> returns the number
  \<open>0.25 / f(13) = 1.25\<close>.
\<close>

theorem csf1po_13_15_numeric_ratio:
  "Duo_paternity_index [(''CSF1PO'', [13, 14])] [(''CSF1PO'', [13, 15])]
      [''CSF1PO'' \<mapsto> [13 \<mapsto> 0.2, 14 \<mapsto> 0.3, 15 \<mapsto> 0.1]] = Inr (Num (0.25 / 0.2))
   \<and> (0.25 / 0.2 :: real) = 1.25"
  by (simp add: interface_defs construct_defs property_defs)

text \<open>
  Claim C3. The claim: \<^verbatim>\<open>inconsistent_markers\<close> includes every marker for which zero or two
  alleles of the child appear in the parent's pair. The code returns the list only when
  \<^verbatim>\<open>any(inconsistent_markers)\<close> holds, which tests the marker names, not the length of the
  list: for the one marker named by the empty string, with no allele shared, it returns
  \<^verbatim>\<open>0\<close> and the marker is not reported.
\<close>

theorem empty_marker_name_not_reported:
  "Duo_inconsistent_markers [('''', [13, 14])] [('''', [15, 16])] Map.empty = Inr IntZero"
  by (simp add: interface_defs construct_defs property_defs)

text \<open>
  Claim C4. The claim: with an inconsistent marker the result is a typed diagnostic that
  identifies the inconsistent markers, never a string in the place of the number. On the code
  the diagnostic is a string that carries the count only: two cases whose inconsistent
  markers differ give the same result.
\<close>

theorem diagnostic_does_not_identify_markers:
  "Duo_paternity_index [(''D8'', [13, 14])] [(''D8'', [15, 16])] Map.empty
      = Inr (Str ''There are 1 inconsistent markers.'')
   \<and> Duo_paternity_index [(''TH01'', [13, 14])] [(''TH01'', [15, 16])] Map.empty
      = Inr (Str ''There are 1 inconsistent markers.'')
   \<and> Duo_inconsistent_markers [(''D8'', [13, 14])] [(''D8'', [15, 16])] Map.empty
      \<noteq> Duo_inconsistent_markers [(''TH01'', [13, 14])] [(''TH01'', [15, 16])] Map.empty"
  by (simp add: interface_defs construct_defs property_defs str_nat_one)

text \<open>
  Claim C4 as amended: whenever some marker with a non-empty name is flagged inconsistent,
  \<^verbatim>\<open>paternity_index\<close> returns, in the place of the number, the string
  \<^verbatim>\<open>There are N inconsistent markers.\<close> where N is the number of flagged markers.
\<close>

theorem paternity_index_diagnostic_string:
  assumes "row \<in> set (marker_rows self)" and "flagged row" and "fst row \<noteq> []"
  shows "fst (paternity_index self) =
     Inr (Str (''There are '' @ str_nat (length (filter flagged (marker_rows self)))
               @ '' inconsistent markers.''))"
  using assms by (rule diagnostic_of_flagged_row)

theorem paternity_index_diagnostic_string_witness:
  "(''D8'', [13, 14], [15, 16]) \<in> set (marker_rows
      \<lparr>child = \<lparr>profile = 1, markers = [''D8''], alleles = [[15, 16]]\<rparr>,
       parent = \<lparr>profile = 0, markers = [''D8''], alleles = [[13, 14]]\<rparr>,
       markers = [''D8''], population = Map.empty\<rparr>)
   \<and> flagged (''D8'', [13, 14], [15, 16])
   \<and> fst (''D8'', [13 :: real, 14], [15 :: real, 16]) \<noteq> []
   \<and> fst (paternity_index
      \<lparr>child = \<lparr>profile = 1, markers = [''D8''], alleles = [[15, 16]]\<rparr>,
       parent = \<lparr>profile = 0, markers = [''D8''], alleles = [[13, 14]]\<rparr>,
       markers = [''D8''], population = Map.empty\<rparr>)
     = Inr (Str ''There are 1 inconsistent markers.'')"
proof -
  let ?duo = "\<lparr>child = \<lparr>profile = 1, markers = [''D8''], alleles = [[15, 16]]\<rparr>,
       parent = \<lparr>profile = 0, markers = [''D8''], alleles = [[13, 14]]\<rparr>,
       markers = [''D8''], population = Map.empty\<rparr>"
  have r: "(''D8'', [13, 14], [15, 16]) \<in> set (marker_rows ?duo)"
    by (simp add: marker_rows_def)
  have f: "flagged (''D8'', [13, 14], [15, 16])"
    by (simp add: flagged_def check_def)
  have n: "fst (''D8'', [13 :: real, 14], [15 :: real, 16]) \<noteq> []" by simp
  have c: "length (filter flagged (marker_rows ?duo)) = Suc 0"
    by (simp add: marker_rows_def flagged_def check_def)
  from paternity_index_diagnostic_string [OF r f n] r f n show ?thesis
    by (simp only: c str_nat_one) simp
qed

text \<open>
  Claim C5. The claim: with parent and child both homozygous the marker contributes
  \<open>1 / f(p1)\<close>, the frequency looked up by the parent's allele. The code looks up
  \<^verbatim>\<open>pop[pop[0]]\<close>: with \<open>f(13) = 0.2\<close>, \<open>f(0) = 0.5\<close> and \<open>f(0.5) = 0.1\<close> the step gives
  \<open>1 / 0.1 = 10\<close>, not \<open>1 / 0.2 = 5\<close>; with no key \<^verbatim>\<open>0\<close> in the table it raises
  \<^verbatim>\<open>KeyError\<close>. Through the interface the step is reached for the marker named by the
  empty string.
\<close>

theorem hom_hom_double_lookup:
  "marker_step [13 \<mapsto> 0.2, 0 \<mapsto> 0.5, 0.5 \<mapsto> 0.1] [13, 13] [13, 13] 1 = Inr 10
   \<and> marker_step [13 \<mapsto> 0.2] [13, 13] [13, 13] 1 = Inl KeyError
   \<and> Duo_paternity_index [('''', [13, 13])] [('''', [13, 13])]
        ['''' \<mapsto> [13 \<mapsto> 0.2, 0 \<mapsto> 0.5, 0.5 \<mapsto> 0.1]] = Inr (Num 10)"
  by (simp add: interface_defs construct_defs property_defs)

text \<open>
  Claim C6. The claim: construction fails with the input error (\<^verbatim>\<open>ValueError\<close> in the
  code) when a profile is not a mapping. For a parent with no \<^verbatim>\<open>keys\<close> attribute (a list)
  the first statement of \<^verbatim>\<open>__init__\<close> raises \<^verbatim>\<open>AttributeError\<close>, which its handler does not
  catch; the \<^verbatim>\<open>isinstance\<close> test of \<^verbatim>\<open>_load_profile\<close> is never reached.
\<close>

theorem no_keys_profile_AttributeError:
  "snd (Duo_init ((\<lambda>a. NoKeys)(1 := Dict [(''CSF1PO'', [13, 14])])) 0 1 Map.empty) = Inl AttributeError
   \<and> Inl AttributeError \<noteq> (Inl ValueError :: error + Duo)"
  by (simp add: construct_defs)

text \<open>
  Claim C7. For parent \<^verbatim>\<open>{CSF1PO: [13,14]}\<close>, child \<^verbatim>\<open>{CSF1PO: [13,16]}\<close> and a population
  table that has 16 and gives \<open>f(13) = 0.2\<close>, the marker is consistent
  (\<^verbatim>\<open>inconsistent_markers\<close> is \<^verbatim>\<open>0\<close>) and \<^verbatim>\<open>paternity_index\<close> returns
  \<open>0.25 / f(13) = 1.25\<close>.
\<close>

theorem csf1po_13_16_ratio:
  assumes "pop ''CSF1PO'' = Some tbl" and "tbl 13 = Some 0.2" and "tbl 16 = Some f16"
  shows "Duo_inconsistent_markers [(''CSF1PO'', [13, 14])] [(''CSF1PO'', [13, 16])] pop = Inr IntZero
    \<and> Duo_paternity_index [(''CSF1PO'', [13, 14])] [(''CSF1PO'', [13, 16])] pop
        = Inr (Num (0.25 / 0.2))
    \<and> (0.25 / 0.2 :: real) = 1.25"
  using assms by (simp add: interface_defs construct_defs property_defs)

theorem csf1po_13_16_ratio_witness:
  "[''CSF1PO'' \<mapsto> [13 \<mapsto> 0.2, 14 \<mapsto> 0.3, 16 \<mapsto> 0.05 :: real]] ''CSF1PO''
      = Some [13 \<mapsto> 0.2, 14 \<mapsto> 0.3, 16 \<mapsto> 0.05 :: real]
   \<and> [13 \<mapsto> 0.2, 14 \<mapsto> 0.3, 16 \<mapsto> 0.05 :: real] (13 :: real) = Some 0.2
   \<and> [13 \<mapsto> 0.2, 14 \<mapsto> 0.3, 16 \<mapsto> 0.05 :: real] (16 :: real) = Some 0.05
   \<and> Duo_paternity_index [(''CSF1PO'', [13, 14])] [(''CSF1PO'', [13, 16])]
        [''CSF1PO'' \<mapsto> [13 \<mapsto> 0.2, 14 \<mapsto> 0.3, 16 \<mapsto> 0.05]] = Inr (Num 1.25)"
proof -
  let ?tbl = "[13 \<mapsto> 0.2, 14 \<mapsto> 0.3, 16 \<mapsto> 0.05 :: real] :: real \<rightharpoonup> real"
  have a: "[''CSF1PO'' \<mapsto> ?tbl] ''CSF1PO'' = Some ?tbl" by simp
  have b: "?tbl 13 = Some 0.2" by simp
  have c: "?tbl 16 = Some 0.05" by simp
  from csf1po_13_16_ratio [of "[''CSF1PO'' \<mapsto> ?tbl]" ?tbl "0.05"] a b c show ?thesis by simp
qed

text \<open>
  Claim C8. For every store that holds a case at \<open>self\<close> (the constructed cases among
  them, lemma \<open>constructed_case_in_store\<close>): evaluating \<^verbatim>\<open>paternity_index\<close> leaves every
  object that was in the store as it was (the raw profiles, the marker lists, the arrays,
  the population table, the profile objects and the case object; the store only gains the
  lists that \<^verbatim>\<open>inconsistent_markers\<close> creates), the address still holds the same case, and
  evaluating the property again, in the store the first evaluation left, gives the same
  result: the same number, the same diagnostic or the same exception.
\<close>

theorem paternity_index_leaves_case_unchanged:
  assumes "duo_at s self = Some d"
  shows "take (length s) (snd (paternity_index_st s self)) = s
    \<and> duo_at (snd (paternity_index_st s self)) self = Some d
    \<and> fst (paternity_index_st (snd (paternity_index_st s self)) self)
        = fst (paternity_index_st s self)"
proof -
  from paternity_index_st_store obtain g where g: "snd (paternity_index_st s self) = s @ g"
    by blast
  have d': "duo_at (s @ g) self = Some d" by (rule duo_at_append [OF assms])
  have "fst (paternity_index_st (s @ g) self) = fst (paternity_index d)"
    by (rule paternity_index_st_refines [OF d'])
  moreover have "fst (paternity_index_st s self) = fst (paternity_index d)"
    by (rule paternity_index_st_refines [OF assms])
  ultimately show ?thesis
    using d' g paternity_index_st_frame [of s self] by simp
qed

theorem paternity_index_leaves_case_unchanged_witness:
  "duo_at
     [Raw (Dict [(''CSF1PO'', [13, 14])]), Raw (Dict [(''CSF1PO'', [13, 16])]),
      ListObj [''CSF1PO''], ArrayObj [[13, 14]], ListObj [''CSF1PO''], ArrayObj [[13, 16]],
      TableObj [''CSF1PO'' \<mapsto> [13 \<mapsto> 0.2, 14 \<mapsto> 0.3, 16 \<mapsto> 0.05]],
      ProfileObj 0 2 3, ProfileObj 1 4 5, DuoObj 8 7 2 6] 9
   = Some \<lparr>child = \<lparr>profile = 1, markers = [''CSF1PO''], alleles = [[13, 16]]\<rparr>,
           parent = \<lparr>profile = 0, markers = [''CSF1PO''], alleles = [[13, 14]]\<rparr>,
           markers = [''CSF1PO''],
           population = [''CSF1PO'' \<mapsto> [13 \<mapsto> 0.2, 14 \<mapsto> 0.3, 16 \<mapsto> 0.05]]\<rparr>
   \<and> paternity_index_st
     [Raw (Dict [(''CSF1PO'', [13, 14])]), Raw (Dict [(''CSF1PO'', [13, 16])]),
      ListObj [''CSF1PO''], ArrayObj [[13, 14]], ListObj [''CSF1PO''], ArrayObj [[13, 16]],
      TableObj [''CSF1PO'' \<mapsto> [13 \<mapsto> 0.2, 14 \<mapsto> 0.3, 16 \<mapsto> 0.05]],
      ProfileObj 0 2 3, ProfileObj 1 4 5, DuoObj 8 7 2 6] 9
   = (Inr (Num 1.25),
     [Raw (Dict [(''CSF1PO'', [13, 14])]), Raw (Dict [(''CSF1PO'', [13, 16])]),
      ListObj [''CSF1PO''], ArrayObj [[13, 14]], ListObj [''CSF1PO''], ArrayObj [[13, 16]],
      TableObj [''CSF1PO'' \<mapsto> [13 \<mapsto> 0.2, 14 \<mapsto> 0.3, 16 \<mapsto> 0.05]],
      ProfileObj 0 2 3, ProfileObj 1 4 5, DuoObj 8 7 2 6, ListObj []])
   \<and> fst (paternity_index_st
     [Raw (Dict [(''CSF1PO'', [13, 14])]), Raw (Dict [(''CSF1PO'', [13, 16])]),
      ListObj [''CSF1PO''], ArrayObj [[13, 14]], ListObj [''CSF1PO''], ArrayObj [[13, 16]],
      TableObj [''CSF1PO'' \<mapsto> [13 \<mapsto> 0.2, 14 \<mapsto> 0.3, 16 \<mapsto> 0.05]],
      ProfileObj 0 2 3, ProfileObj 1 4 5, DuoObj 8 7 2 6, ListObj []] 9)
   = Inr (Num 1.25)"
proof -
  let ?s = "[Raw (Dict [(''CSF1PO'', [13, 14])]), Raw (Dict [(''CSF1PO'', [13, 16])]),
      ListObj [''CSF1PO''], ArrayObj [[13, 14]], ListObj [''CSF1PO''], ArrayObj [[13, 16]],
      TableObj [''CSF1PO'' \<mapsto> [13 \<mapsto> 0.2, 14 \<mapsto> 0.3, 16 \<mapsto> 0.05]],
      ProfileObj 0 2 3, ProfileObj 1 4 5, DuoObj 8 7 2 6]"
  let ?d = "\<lparr>child = \<lparr>profile = 1, markers = [''CSF1PO''], alleles = [[13, 16]]\<rparr>,
           parent = \<lparr>profile = 0, markers = [''CSF1PO''], alleles = [[13, 14]]\<rparr>,
           markers = [''CSF1PO''],
           population = [''CSF1PO'' \<mapsto> [13 \<mapsto> 0.2, 14 \<mapsto> 0.3, 16 \<mapsto> 0.05 :: real]]\<rparr>"
  have h: "duo_at ?s 9 = Some ?d"
    by (simp add: duo_at_def profile_at_def deref_def)
  have e: "paternity_index_st ?s 9 = (Inr (Num 1.25), ?s @ [ListObj []])"
    by (simp add: paternity_index_st_def inconsistent_markers_st_def inconsistent_refs_def
        index_rows_def self_parent_def self_child_def self_markers_def self_alleles_def
        self_population_def list_items_def array_rows_def table_getitem_def list_append_def
        alloc_def deref_def truthy_st_def len_st_def and_then_def nth_append property_defs)
  from paternity_index_leaves_case_unchanged [OF h] h e show ?thesis by simp
qed

text \<open>
  Claim C9. The claim: a homozygous child pair always makes \<^verbatim>\<open>paternity_index\<close> return the
  diagnostic, so the branches for a homozygous child cannot be reached. For the marker named
  by the empty string \<^verbatim>\<open>any(inconsistent_markers)\<close> is false, \<^verbatim>\<open>inconsistent_markers\<close> is
  \<^verbatim>\<open>0\<close> and the branch for a heterozygous parent and a homozygous child computes
  \<open>0.5 / 0.2 = 2.5\<close>.
\<close>

theorem homozygous_child_empty_marker_numeric:
  "Duo_inconsistent_markers [('''', [13, 14])] [('''', [13, 13])] ['''' \<mapsto> [13 \<mapsto> 0.2]]
      = Inr IntZero
   \<and> Duo_paternity_index [('''', [13, 14])] [('''', [13, 13])] ['''' \<mapsto> [13 \<mapsto> 0.2]]
      = Inr (Num 2.5)"
  by (simp add: interface_defs construct_defs property_defs)

text \<open>
  Claim C10. The claim: when a raw mapping has the key \<^verbatim>\<open>'AMEL'\<close>, construction deletes it
  from the caller's dictionary. Construction validates before it deletes: when the parent
  has an entry of length 1, the child's key is deleted, the exception is raised and the
  parent's dictionary still has its key; when the marker sets differ nothing is deleted.
\<close>

theorem AMEL_kept_when_construction_fails:
  "Duo_init (fresh_heap [(''AMEL'', [1, 2]), (''CSF1PO'', [13])]
                        [(''AMEL'', [1, 2]), (''CSF1PO'', [13, 14])]) 0 1 Map.empty
     = (fresh_heap [(''AMEL'', [1, 2]), (''CSF1PO'', [13])] [(''CSF1PO'', [13, 14])],
        Inl ValueError)
   \<and> Duo_init (fresh_heap [(''AMEL'', [1, 2]), (''CSF1PO'', [13, 14])]
                          [(''CSF1PO'', [13, 14])]) 0 1 Map.empty
     = (fresh_heap [(''AMEL'', [1, 2]), (''CSF1PO'', [13, 14])] [(''CSF1PO'', [13, 14])],
        Inl ValueError)"
  by (simp add: construct_defs)

text \<open>
  Claim C10 as amended: when construction succeeds on two dictionaries, the caller's own
  objects (the same addresses, which the profiles keep as \<^verbatim>\<open>self.profile\<close>) hold the
  dictionaries without the key \<^verbatim>\<open>'AMEL'\<close> and with every other entry as it was, in its
  place; no other object of the store changes.
\<close>

theorem AMEL_deleted_in_place:
  assumes "h parent_arg = Dict dp" and "h child_arg = Dict dc"
    and "Duo_init h parent_arg child_arg pop = (h', Inr duo)"
  shows "h' parent_arg = Dict (filter (\<lambda>kv. fst kv \<noteq> AMEL) dp)
       \<and> h' child_arg = Dict (filter (\<lambda>kv. fst kv \<noteq> AMEL) dc)
       \<and> (\<forall>a. a \<noteq> parent_arg \<and> a \<noteq> child_arg \<longrightarrow> h' a = h a)
       \<and> profile (parent duo) = parent_arg \<and> profile (child duo) = child_arg"
proof -
  have del: "AList.delete AMEL d = filter (\<lambda>kv. fst kv \<noteq> AMEL) d" for d :: raw_profile
    by (auto simp: AList.delete_eq intro: filter_cong)
  from assms(3) obtain h1 c p where
    lc: "load_profile h child_arg = (h1, Inr c)" and
    lp: "load_profile h1 parent_arg = (h', Inr p)" and
    duo: "parent duo = p" "child duo = c"
    by (auto simp: Duo_init_def split: sum.splits prod.splits)
  from load_profile_Dict [OF lc assms(2)]
  have h1: "h1 = h(child_arg := Dict (AList.delete AMEL dc))" and pc: "profile c = child_arg"
    by auto
  show ?thesis
  proof (cases "parent_arg = child_arg")
    case True
    then have "h1 parent_arg = Dict (AList.delete AMEL dc)" and "dp = dc"
      using h1 assms(1,2) by auto
    with load_profile_Dict [OF lp] True h1 pc duo show ?thesis
      by (auto simp: del AList.delete_idem)
  next
    case False
    then have "h1 parent_arg = Dict dp" using h1 assms(1) by simp
    with load_profile_Dict [OF lp] False h1 pc duo show ?thesis
      by (auto simp: del)
  qed
qed

theorem AMEL_deleted_in_place_witness:
  "fst (Duo_init (fresh_heap [(''AMEL'', [1, 2]), (''CSF1PO'', [13, 14])]
                             [(''AMEL'', [1, 2]), (''CSF1PO'', [13, 16])]) 0 1 Map.empty) 0
     = Dict [(''CSF1PO'', [13, 14])]
   \<and> fst (Duo_init (fresh_heap [(''AMEL'', [1, 2]), (''CSF1PO'', [13, 14])]
                               [(''AMEL'', [1, 2]), (''CSF1PO'', [13, 16])]) 0 1 Map.empty) 1
     = Dict [(''CSF1PO'', [13, 16])]
   \<and> snd (Duo_init (fresh_heap [(''AMEL'', [1, 2]), (''CSF1PO'', [13, 14])]
                               [(''AMEL'', [1, 2]), (''CSF1PO'', [13, 16])]) 0 1 Map.empty)
     = Inr \<lparr>child = \<lparr>profile = 1, markers = [''CSF1PO''], alleles = [[13, 16]]\<rparr>,
            parent = \<lparr>profile = 0, markers = [''CSF1PO''], alleles = [[13, 14]]\<rparr>,
            markers = [''CSF1PO''], population = Map.empty\<rparr>"
proof -
  let ?dp = "[(''AMEL'', [1, 2]), (''CSF1PO'', [13, 14])] :: raw_profile"
  let ?dc = "[(''AMEL'', [1, 2]), (''CSF1PO'', [13, 16])] :: raw_profile"
  let ?h = "fresh_heap ?dp ?dc"
  let ?duo = "\<lparr>child = \<lparr>profile = 1, markers = [''CSF1PO''], alleles = [[13, 16]]\<rparr>,
            parent = \<lparr>profile = 0, markers = [''CSF1PO''], alleles = [[13, 14]]\<rparr>,
            markers = [''CSF1PO''], population = Map.empty\<rparr>"
  have p: "?h 0 = Dict ?dp" by (simp add: fresh_heap_def)
  have c: "?h 1 = Dict ?dc" by (simp add: fresh_heap_def)
  have s: "snd (Duo_init ?h 0 1 Map.empty) = Inr ?duo"
    by (simp add: construct_defs)
  then have e: "Duo_init ?h 0 1 Map.empty = (fst (Duo_init ?h 0 1 Map.empty), Inr ?duo)"
    by (simp add: prod_eq_iff)
  from AMEL_deleted_in_place [of ?h 0 ?dp 1 ?dc Map.empty "fst (Duo_init ?h 0 1 Map.empty)" ?duo] p c e s
  show ?thesis
    by (simp add: AMEL_def)
qed

end
